theory Spec2Isabelle
  imports Complex_Main "HOL-Library.Sublist" "HOL-Library.Multiset"
begin

section \<open>JavaScript library functions used by the hotel API service\<close>

text \<open>
  Strings are modelled over ASCII: a JavaScript string is a \<open>string\<close> whose characters
  are ASCII code units.  Numbers are finite rationals (no NaN, no infinities); \<open>undefined\<close>
  is \<open>None\<close>.
\<close>

definition toLowerChar :: "char \<Rightarrow> char" where
  "toLowerChar c =
     (let n = (of_char c :: nat) in if 65 \<le> n \<and> n \<le> 90 then char_of (n + 32) else c)"

definition toUpperChar :: "char \<Rightarrow> char" where
  "toUpperChar c =
     (let n = (of_char c :: nat) in if 97 \<le> n \<and> n \<le> 122 then char_of (n - 32) else c)"

definition toLowerCase :: "string \<Rightarrow> string" where
  "toLowerCase s = map toLowerChar s"

definition toUpperCase :: "string \<Rightarrow> string" where
  "toUpperCase s = map toUpperChar s"

text \<open>The ASCII white space that \<open>String.prototype.trim\<close> strips: space, TAB, LF, VT, FF, CR.\<close>

definition isWhiteSpace :: "char \<Rightarrow> bool" where
  "isWhiteSpace c = ((of_char c :: nat) \<in> set [32, 9, 10, 11, 12, 13])"

definition trim :: "string \<Rightarrow> string" where
  "trim s = rev (dropWhile isWhiteSpace (rev (dropWhile isWhiteSpace s)))"

text \<open>\<open>s.startsWith(t)\<close> and \<open>s.includes(t)\<close>; the receiver is the first argument
  (\<open>includes\<close> is a reserved word of the theory language, hence \<open>includes_str\<close>).\<close>

definition startsWith :: "string \<Rightarrow> string \<Rightarrow> bool" where
  "startsWith s t = prefix t s"

fun includes_str :: "string \<Rightarrow> string \<Rightarrow> bool" where
  "includes_str [] t = (t = [])"
| "includes_str (c # s) t = (startsWith (c # s) t \<or> includes_str s t)"

text \<open>The regular expression \<open>/^[a-z]{3}$/i\<close>: exactly three ASCII letters.\<close>

definition isLetter :: "char \<Rightarrow> bool" where
  "isLetter c =
     (let n = (of_char c :: nat) in (65 \<le> n \<and> n \<le> 90) \<or> (97 \<le> n \<and> n \<le> 122))"

definition threeLetters :: "string \<Rightarrow> bool" where
  "threeLetters s = (length s = 3 \<and> list_all isLetter s)"

text \<open>
  \<open>Array.prototype.sort(cmp)\<close> is a stable sort (ECMAScript 2019): with a consistent
  comparator its result is the one stable ordering of the input, whichever algorithm the
  engine runs.  It is modelled by the stable insertion sort: an element goes before the
  first element of the sorted rest that it does not compare greater than.
\<close>

fun insert_by :: "('a \<Rightarrow> 'a \<Rightarrow> rat) \<Rightarrow> 'a \<Rightarrow> 'a list \<Rightarrow> 'a list" where
  "insert_by cmp x [] = [x]"
| "insert_by cmp x (y # ys) = (if cmp x y \<le> 0 then x # y # ys else y # insert_by cmp x ys)"

definition js_sort :: "('a \<Rightarrow> 'a \<Rightarrow> rat) \<Rightarrow> 'a list \<Rightarrow> 'a list" where
  "js_sort cmp xs = foldr (insert_by cmp) xs []"

text \<open>
  \<open>a.localeCompare(b)\<close> compares the collation keys of the two strings; the collation
  (which depends on the locale of the browser) is the parameter \<open>collate\<close>.
\<close>

definition localeCompare :: "(string \<Rightarrow> 'k::linorder) \<Rightarrow> string \<Rightarrow> string \<Rightarrow> rat" where
  "localeCompare collate a b =
     (if collate a < collate b then - 1 else if collate b < collate a then 1 else 0)"

text \<open>
  \<open>xs.slice(start, end)\<close>: a negative index counts from the end, and both bounds are
  clamped to the array.
\<close>

definition slice :: "'a list \<Rightarrow> int \<Rightarrow> int \<Rightarrow> 'a list" where
  "slice xs start stop =
     (let len = int (length xs);
          k = (if start < 0 then max (len + start) 0 else min start len);
          final = (if stop < 0 then max (len + stop) 0 else min stop len)
      in take (nat (final - k)) (drop (nat k) xs))"


section \<open>Data model\<close>

record Location =
  city :: string
  country :: string
  address :: string
  latitude :: "rat option"
  longitude :: "rat option"

text \<open>
  The hotel fields \<open>id\<close>, \<open>rating\<close>, \<open>location\<close> and \<open>amenities\<close> are prefixed with
  \<open>hotel_\<close>: the search filters have fields of the same names.
\<close>

record Hotel =
  hotel_id :: string
  name :: string
  description :: string
  hotel_rating :: rat
  userRating :: rat
  reviewCount :: rat
  pricePerNight :: rat
  currency :: string
  hotel_location :: Location
  images :: "string list"
  hotel_amenities :: "string list"
  roomType :: string
  freeCancellation :: bool
  breakfastIncluded :: bool

record SearchFilters =
  location :: "string option"
  checkIn :: "string option"
  checkOut :: "string option"
  guests :: "rat option"
  minPrice :: "rat option"
  maxPrice :: "rat option"
  rating :: "rat option"
  amenities :: "string list option"
  sortBy :: "string option"

record SearchResult =
  hotels :: "Hotel list"
  total_count :: nat
  page :: int
  hasMore :: bool

definition HOTELS_PER_PAGE :: int where
  "HOTELS_PER_PAGE = 12"


section \<open>Filter and sort engine\<close>

text \<open>
  The callback of \<open>hotels.filter\<close> in \<open>filterHotels\<close>.  A guard \<open>if (filters.x && ...)\<close>
  tests the truthiness of \<open>filters.x\<close>: a string is truthy when it is not empty, a number
  when it is not zero.
\<close>

definition hotelPasses :: "SearchFilters \<Rightarrow> Hotel \<Rightarrow> bool" where
  "hotelPasses filters hotel =
     (if (case location filters of None \<Rightarrow> False
          | Some loc \<Rightarrow> loc \<noteq> [] \<and>
             (let searchTerm = trim (toLowerCase loc);
                  cityMatch = includes_str (toLowerCase (city (hotel_location hotel))) searchTerm;
                  countryMatch = includes_str (toLowerCase (country (hotel_location hotel))) searchTerm
              in \<not> cityMatch \<and> \<not> countryMatch))
      then False
      else if (case minPrice filters of None \<Rightarrow> False
               | Some m \<Rightarrow> m \<noteq> 0 \<and> pricePerNight hotel < m)
      then False
      else if (case maxPrice filters of None \<Rightarrow> False
               | Some m \<Rightarrow> m \<noteq> 0 \<and> pricePerNight hotel > m)
      then False
      else if (case rating filters of None \<Rightarrow> False
               | Some r \<Rightarrow> r \<noteq> 0 \<and> hotel_rating hotel < r)
      then False
      else if (case amenities filters of None \<Rightarrow> False
               | Some required \<Rightarrow> length required > 0 \<and>
                   \<not> list_all (\<lambda>amenity. amenity \<in> set (hotel_amenities hotel)) required)
      then False
      else True)"

definition filterHotels :: "Hotel list \<Rightarrow> SearchFilters \<Rightarrow> Hotel list" where
  "filterHotels hotelList filters = filter (hotelPasses filters) hotelList"

text \<open>
  \<open>sortHotels(hotels, sortBy = "price_asc")\<close>: the default parameter replaces an
  \<open>undefined\<close> argument before the \<open>switch\<close>.
\<close>

definition sortHotels ::
  "(string \<Rightarrow> 'k::linorder) \<Rightarrow> Hotel list \<Rightarrow> string option \<Rightarrow> Hotel list" where
  "sortHotels collate hotelList sortByArg =
     (let sortKey = (case sortByArg of None \<Rightarrow> ''price_asc'' | Some s \<Rightarrow> s) in
      if sortKey = ''price_asc''
        then js_sort (\<lambda>a b. pricePerNight a - pricePerNight b) hotelList
      else if sortKey = ''price_desc''
        then js_sort (\<lambda>a b. pricePerNight b - pricePerNight a) hotelList
      else if sortKey = ''rating_desc''
        then js_sort (\<lambda>a b. userRating b - userRating a) hotelList
      else if sortKey = ''name_asc''
        then js_sort (\<lambda>a b. localeCompare collate (name a) (name b)) hotelList
      else hotelList)"


section \<open>Location resolver\<close>

text \<open>The own properties of \<open>CITY_CODES\<close>, in insertion order (the order of \<open>Object.entries\<close>).\<close>

definition CITY_CODES :: "(string \<times> string) list" where
  "CITY_CODES =
     [(''new york'', ''NYC''), (''nyc'', ''NYC''), (''paris'', ''PAR''), (''london'', ''LON''),
      (''tokyo'', ''TYO''), (''dubai'', ''DXB''), (''bangkok'', ''BKK''),
      (''singapore'', ''SIN''), (''los angeles'', ''LAX''), (''miami'', ''MIA''),
      (''rome'', ''ROM''), (''barcelona'', ''BCN''), (''amsterdam'', ''AMS''),
      (''delhi'', ''DEL''), (''mumbai'', ''BOM'')]"

text \<open>
  \<open>CITY_CODES\<close> is an object literal, so a property read \<open>CITY_CODES[k]\<close> that finds no own
  property goes on to \<open>Object.prototype\<close>, whose properties are all truthy (functions, and
  the prototype object itself for \<open>__proto__\<close>).
\<close>

definition OBJECT_PROTOTYPE_KEYS :: "string list" where
  "OBJECT_PROTOTYPE_KEYS =
     [''constructor'', ''__defineGetter__'', ''__defineSetter__'', ''hasOwnProperty'',
      ''__lookupGetter__'', ''__lookupSetter__'', ''isPrototypeOf'',
      ''propertyIsEnumerable'', ''toString'', ''valueOf'', ''__proto__'',
      ''toLocaleString'']"

text \<open>What \<open>getCityCode\<close> returns when it is not \<open>null\<close>: a string, or an inherited member.\<close>

datatype CityCode = Code string | Inherited string

definition propertyRead :: "string \<Rightarrow> CityCode option" where
  "propertyRead k =
     (case map_of CITY_CODES k of
        Some code \<Rightarrow> Some (Code code)
      | None \<Rightarrow> if k \<in> set OBJECT_PROTOTYPE_KEYS then Some (Inherited k) else None)"

definition getCityCode :: "string option \<Rightarrow> CityCode option" where
  "getCityCode locationArg =
     (case locationArg of
        None \<Rightarrow> Some (Code ''NYC'')
      | Some loc \<Rightarrow>
          if loc = [] \<or> length (trim loc) = 0 then Some (Code ''NYC'')
          else let normalized = trim (toLowerCase loc) in
            if length normalized < 3 then None
            else if threeLetters normalized then Some (Code (toUpperCase normalized))
            else (case propertyRead normalized of
                    Some knownCode \<Rightarrow> Some knownCode
                  | None \<Rightarrow>
                     (case find (\<lambda>(cityName, code). startsWith cityName normalized
                                    \<or> startsWith normalized cityName) CITY_CODES of
                        Some partialMatch \<Rightarrow> Some (Code (snd partialMatch))
                      | None \<Rightarrow> None)))"


section \<open>Search cache\<close>

text \<open>
  The cache key is \<open>JSON.stringify\<close> of an object with eight fixed members.  On objects
  of this shape the encoding is injective, so the key is modelled by the object itself.
  \<open>x || d\<close> yields \<open>d\<close> when \<open>x\<close> is \<open>undefined\<close> or the empty string; the empty array is
  truthy.  The field \<open>guests\<close> is not read.
\<close>

record CacheKey =
  key_location :: string
  key_checkIn :: string
  key_checkOut :: string
  key_minPrice :: "rat option"
  key_maxPrice :: "rat option"
  key_rating :: "rat option"
  key_amenities :: "string list"
  key_sortBy :: string

definition orElse :: "string option \<Rightarrow> string \<Rightarrow> string" where
  "orElse x d = (case x of None \<Rightarrow> d | Some s \<Rightarrow> if s = [] then d else s)"

definition getCacheKey :: "SearchFilters \<Rightarrow> CacheKey" where
  "getCacheKey filters =
     \<lparr> key_location = orElse (location filters) [],
       key_checkIn = orElse (checkIn filters) [],
       key_checkOut = orElse (checkOut filters) [],
       key_minPrice = minPrice filters,
       key_maxPrice = maxPrice filters,
       key_rating = rating filters,
       key_amenities = (case amenities filters of None \<Rightarrow> [] | Some as \<Rightarrow> as),
       key_sortBy = orElse (sortBy filters) ''price_asc'' \<rparr>"

record SearchCache =
  cache_key :: "CacheKey option"
  cache_hotels :: "Hotel list"
  cache_timestamp :: int
  cache_ttl :: int

text \<open>The module-level \<open>searchCache\<close> at load time, and after \<open>clearSearchCache\<close>.\<close>

definition emptyCache :: SearchCache where
  "emptyCache =
     \<lparr> cache_key = None, cache_hotels = [], cache_timestamp = 0, cache_ttl = 5 * 60 * 1000 \<rparr>"

definition isCacheValid :: "SearchCache \<Rightarrow> int \<Rightarrow> SearchFilters \<Rightarrow> bool" where
  "isCacheValid cache now filters =
     (let k = getCacheKey filters in
        cache_key cache = Some k
        \<and> length (cache_hotels cache) > 0
        \<and> now - cache_timestamp cache < cache_ttl cache)"


section \<open>Search orchestrator\<close>

text \<open>
  The state of the module is the cache slot, together with a counter of the searches that
  went to the network (the instrumentation of the fetch adapter): the cache-miss branch is
  the only place of \<open>searchHotels\<close> that issues remote requests, and every pass through it
  issues at least one.
\<close>

record ApiState =
  searchCache :: SearchCache
  remoteCalls :: nat

definition initialState :: ApiState where
  "initialState = \<lparr> searchCache = emptyCache, remoteCalls = 0 \<rparr>"

definition clearSearchCache :: "ApiState \<Rightarrow> ApiState" where
  "clearSearchCache st = st\<lparr> searchCache := emptyCache \<rparr>"

text \<open>
  What the remote requests of one cache miss come to: \<open>getAmadeusToken\<close> throws, the
  catalog request or the decoding of its response throws, the response is not \<open>ok\<close>, or
  the hotels are fetched.  \<open>Fetched hs\<close> carries \<open>mappedHotels\<close> as the \<open>map\<close> over
  \<open>mapAmadeusHotel\<close> leaves it (after deduplication, the cap, and the enrichment with
  offers), before the client-side filters.
\<close>

datatype RemoteOutcome = AuthFailed | RequestFailed | ResponseNotOk | Fetched "Hotel list"

datatype SearchError = AuthError | FetchError

text \<open>
  The surroundings of one call: what \<open>shouldUseMockData()\<close> returns, the two readings of
  \<open>Date.now()\<close> (in \<open>isCacheValid\<close> and at the cache write), and the remote service as a
  function of what the requests send: the city code and the two dates.
\<close>

record Env =
  useMockData :: bool
  clockAtCheck :: int
  clockAtWrite :: int
  remote :: "CityCode \<Rightarrow> string option \<Rightarrow> string option \<Rightarrow> RemoteOutcome"

text \<open>
  The pagination that four branches of \<open>searchHotels\<close> spell out in the same words, and
  the first-page result of the two mock-data fallbacks.
\<close>

definition pageResult :: "Hotel list \<Rightarrow> int \<Rightarrow> SearchResult" where
  "pageResult results pageArg =
     (let total = length results;
          startIndex = (pageArg - 1) * HOTELS_PER_PAGE;
          endIndex = startIndex + HOTELS_PER_PAGE
      in \<lparr> hotels = slice results startIndex endIndex,
           total_count = total,
           page = pageArg,
           hasMore = (endIndex < int total) \<rparr>)"

definition fallbackResult :: "Hotel list \<Rightarrow> SearchResult" where
  "fallbackResult results =
     \<lparr> hotels = slice results 0 HOTELS_PER_PAGE,
       total_count = length results,
       page = 1,
       hasMore = (int (length results) > HOTELS_PER_PAGE) \<rparr>"

text \<open>
  The body of the \<open>try\<close> block.  \<open>mockHotels\<close> is the static catalog of the module
  \<open>mockData.js\<close>.  A thrown error is \<open>Inl\<close>, with the state as the throw leaves it.
\<close>

definition searchHotelsTry ::
  "(string \<Rightarrow> 'k::linorder) \<Rightarrow> Hotel list \<Rightarrow> Env \<Rightarrow> ApiState \<Rightarrow> SearchFilters \<Rightarrow> int
     \<Rightarrow> (SearchError \<times> ApiState) + (SearchResult \<times> ApiState)" where
  "searchHotelsTry collate mockHotels env st filters pageArg =
     (if useMockData env then
        (let results = sortHotels collate (filterHotels mockHotels filters) (sortBy filters)
         in Inr (pageResult results pageArg, st))
      else
        (case getCityCode (location filters) of
           None \<Rightarrow>
             (let results = sortHotels collate (filterHotels mockHotels filters) (sortBy filters)
              in Inr (pageResult results pageArg, st))
         | Some cityCode \<Rightarrow>
             if isCacheValid (searchCache st) (clockAtCheck env) filters then
               Inr (pageResult (cache_hotels (searchCache st)) pageArg, st)
             else
               (let st1 = st\<lparr> remoteCalls := remoteCalls st + 1 \<rparr> in
                case remote env cityCode (checkIn filters) (checkOut filters) of
                  AuthFailed \<Rightarrow> Inl (AuthError, st1)
                | RequestFailed \<Rightarrow> Inl (FetchError, st1)
                | ResponseNotOk \<Rightarrow>
                    (let results =
                       sortHotels collate (filterHotels mockHotels filters) (sortBy filters)
                     in Inr (fallbackResult results, st1))
                | Fetched mapped \<Rightarrow>
                    (let mappedHotels =
                       sortHotels collate
                         (filterHotels mapped (filters\<lparr> location := None \<rparr>)) (sortBy filters);
                         st2 = st1\<lparr> searchCache :=
                                 \<lparr> cache_key = Some (getCacheKey filters),
                                   cache_hotels = mappedHotels,
                                   cache_timestamp = clockAtWrite env,
                                   cache_ttl = 5 * 60 * 1000 \<rparr> \<rparr>
                     in Inr (pageResult mappedHotels pageArg, st2)))))"

text \<open>
  \<open>searchHotels\<close>: the \<open>try\<close> block and its \<open>catch\<close>.  The result is the outcome of the
  promise: \<open>Inr\<close> when it resolves, \<open>Inl\<close> when it rejects.
\<close>

definition searchHotels ::
  "(string \<Rightarrow> 'k::linorder) \<Rightarrow> Hotel list \<Rightarrow> Env \<Rightarrow> ApiState \<Rightarrow> SearchFilters \<Rightarrow> int
     \<Rightarrow> SearchError + (SearchResult \<times> ApiState)" where
  "searchHotels collate mockHotels env st filters pageArg =
     (case searchHotelsTry collate mockHotels env st filters pageArg of
        Inr finished \<Rightarrow> Inr finished
      | Inl (error, st1) \<Rightarrow>
          (let results = sortHotels collate (filterHotels mockHotels filters) (sortBy filters)
           in Inr (fallbackResult results, st1)))"


section \<open>The filter predicates in the words of the specification\<close>

text \<open>
  The predicates of \<open>filterHotels\<close> as the specification words them, a bound applying
  whenever it is set (\<open>passesAsWorded\<close>), and as the guards of the code decide it, a
  numeric bound applying when it is set and not zero (\<open>passesAllPredicates\<close>).
\<close>

definition passesAsWorded :: "SearchFilters \<Rightarrow> Hotel \<Rightarrow> bool" where
  "passesAsWorded filters hotel =
     ((case location filters of None \<Rightarrow> True
       | Some loc \<Rightarrow> loc = []
           \<or> sublist (trim (toLowerCase loc)) (toLowerCase (city (hotel_location hotel)))
           \<or> sublist (trim (toLowerCase loc)) (toLowerCase (country (hotel_location hotel))))
      \<and> (case minPrice filters of None \<Rightarrow> True | Some m \<Rightarrow> m \<le> pricePerNight hotel)
      \<and> (case maxPrice filters of None \<Rightarrow> True | Some m \<Rightarrow> pricePerNight hotel \<le> m)
      \<and> (case rating filters of None \<Rightarrow> True | Some r \<Rightarrow> r \<le> hotel_rating hotel)
      \<and> (case amenities filters of None \<Rightarrow> True
          | Some required \<Rightarrow> required = [] \<or> set required \<subseteq> set (hotel_amenities hotel)))"

definition passesAllPredicates :: "SearchFilters \<Rightarrow> Hotel \<Rightarrow> bool" where
  "passesAllPredicates filters hotel =
     ((case location filters of None \<Rightarrow> True
       | Some loc \<Rightarrow> loc = []
           \<or> sublist (trim (toLowerCase loc)) (toLowerCase (city (hotel_location hotel)))
           \<or> sublist (trim (toLowerCase loc)) (toLowerCase (country (hotel_location hotel))))
      \<and> (case minPrice filters of None \<Rightarrow> True
          | Some m \<Rightarrow> m = 0 \<or> m \<le> pricePerNight hotel)
      \<and> (case maxPrice filters of None \<Rightarrow> True
          | Some m \<Rightarrow> m = 0 \<or> pricePerNight hotel \<le> m)
      \<and> (case rating filters of None \<Rightarrow> True
          | Some r \<Rightarrow> r = 0 \<or> r \<le> hotel_rating hotel)
      \<and> (case amenities filters of None \<Rightarrow> True
          | Some required \<Rightarrow> required = [] \<or> set required \<subseteq> set (hotel_amenities hotel)))"


section \<open>Sample data\<close>

text \<open>A hotel with the given id, city, price and user rating; the filters \<open>{}\<close>.\<close>

definition sampleHotel :: "string \<Rightarrow> string \<Rightarrow> rat \<Rightarrow> rat \<Rightarrow> Hotel" where
  "sampleHotel ident cityName price score =
     \<lparr> hotel_id = ident, name = ident, description = ''A quality hotel'',
       hotel_rating = 4, userRating = score, reviewCount = 250,
       pricePerNight = price, currency = ''USD'',
       hotel_location =
         \<lparr> city = cityName, country = ''Germany'', address = ''Address not available'',
           latitude = None, longitude = None \<rparr>,
       images = [''image-1''], hotel_amenities = [''wifi'', ''pool''],
       roomType = ''Standard Room'', freeCancellation = True, breakfastIncluded = False \<rparr>"

definition noFilters :: SearchFilters where
  "noFilters =
     \<lparr> location = None, checkIn = None, checkOut = None, guests = None, minPrice = None,
       maxPrice = None, rating = None, amenities = None, sortBy = None \<rparr>"

definition byLength :: "string \<Rightarrow> nat" where
  "byLength s = length s"

text \<open>
  A catalog of fourteen hotels priced 10, 20, ..., 140; a remote service that has no
  hotels, one that has two, and one whose authentication fails; a live-mode environment
  whose clock reads \<open>t\<close> at the cache check and \<open>t + 1\<close> at the cache write; the mock mode.
\<close>

definition sampleCatalog :: "Hotel list" where
  "sampleCatalog =
     map (\<lambda>i. sampleHotel (replicate i CHR ''h'') ''Berlin'' (of_nat i * 10) 8) [1..<15]"

definition emptyRemote :: "CityCode \<Rightarrow> string option \<Rightarrow> string option \<Rightarrow> RemoteOutcome" where
  "emptyRemote cityCode fromDate toDate = Fetched []"

definition sampleRemote :: "CityCode \<Rightarrow> string option \<Rightarrow> string option \<Rightarrow> RemoteOutcome" where
  "sampleRemote cityCode fromDate toDate =
     Fetched [sampleHotel ''r1'' ''NYC'' 120 8, sampleHotel ''r2'' ''NYC'' 90 9]"

definition failingRemote :: "CityCode \<Rightarrow> string option \<Rightarrow> string option \<Rightarrow> RemoteOutcome" where
  "failingRemote cityCode fromDate toDate = AuthFailed"

definition liveEnv ::
  "int \<Rightarrow> (CityCode \<Rightarrow> string option \<Rightarrow> string option \<Rightarrow> RemoteOutcome) \<Rightarrow> Env" where
  "liveEnv t service =
     \<lparr> useMockData = False, clockAtCheck = t, clockAtWrite = t + 1, remote = service \<rparr>"

definition mockEnv :: Env where
  "mockEnv =
     \<lparr> useMockData = True, clockAtCheck = 0, clockAtWrite = 0, remote = failingRemote \<rparr>"


section \<open>Properties of the filter engine\<close>

lemma includes_str_sublist: "includes_str s t = sublist t s"
  by (induction s) (auto simp: startsWith_def sublist_Cons_right)

lemma hotelPasses_eq: "hotelPasses f h = passesAllPredicates f h"
  by (auto simp: hotelPasses_def passesAllPredicates_def includes_str_sublist Let_def
      list_all_iff split: option.splits)

text \<open>
  C3, as the specification words it, fails: a \<open>maxPrice\<close> that is set to zero is not
  applied, so a hotel that costs 100 a night passes the filter \<open>{maxPrice: 0}\<close>.
\<close>

theorem filterHotels_zero_maxPrice_counterexample:
  "filterHotels [sampleHotel ''h1'' ''Berlin'' 100 8] (noFilters\<lparr>maxPrice := Some 0\<rparr>)
     \<noteq> filter (passesAsWorded (noFilters\<lparr>maxPrice := Some 0\<rparr>))
         [sampleHotel ''h1'' ''Berlin'' 100 8]"
  by (simp add: filterHotels_def hotelPasses_def passesAsWorded_def noFilters_def
      sampleHotel_def)

text \<open>
  C3 (amended): for every hotel list and filters object, \<open>filterHotels\<close> returns, in the
  order of the input, exactly the hotels that pass every predicate: if \<open>filters.location\<close>
  is non-empty, the lower-cased, trimmed location is a substring of the lower-cased city or
  country; if \<open>minPrice\<close> is set and not zero, \<open>pricePerNight \<ge> minPrice\<close>; if \<open>maxPrice\<close>
  is set and not zero, \<open>pricePerNight \<le> maxPrice\<close>; if \<open>rating\<close> is set and not zero,
  \<open>hotel.rating \<ge> filters.rating\<close>; if a non-empty amenities list is set, the hotel's
  amenities contain every requested amenity.
\<close>

theorem filterHotels_exact:
  "filterHotels hotelList filters = filter (passesAllPredicates filters) hotelList"
  unfolding filterHotels_def using hotelPasses_eq by presburger

theorem filterHotels_exact_witness:
  "filterHotels
     [sampleHotel ''h1'' ''Berlin'' 100 8, sampleHotel ''h2'' ''Munich'' 300 9,
      sampleHotel ''h3'' ''Bern'' 150 7]
     (noFilters\<lparr>location := Some '' BER '', maxPrice := Some 120,
        amenities := Some [''pool'']\<rparr>)
   = [sampleHotel ''h1'' ''Berlin'' 100 8]"
proof -
  have "filter (passesAllPredicates (noFilters\<lparr>location := Some '' BER '',
          maxPrice := Some 120, amenities := Some [''pool'']\<rparr>))
          [sampleHotel ''h1'' ''Berlin'' 100 8, sampleHotel ''h2'' ''Munich'' 300 9,
           sampleHotel ''h3'' ''Bern'' 150 7]
        = [sampleHotel ''h1'' ''Berlin'' 100 8]"
    by code_simp
  then show ?thesis
    using filterHotels_exact [of "[sampleHotel ''h1'' ''Berlin'' 100 8,
      sampleHotel ''h2'' ''Munich'' 300 9, sampleHotel ''h3'' ''Bern'' 150 7]"
      "noFilters\<lparr>location := Some '' BER '', maxPrice := Some 120,
        amenities := Some [''pool'']\<rparr>"]
    by simp
qed

text \<open>
  C7, as the specification words it, fails: with \<open>minPrice = 5\<close> and \<open>maxPrice = 0\<close> both
  set and \<open>minPrice > maxPrice\<close>, the upper bound is not applied and a hotel that costs
  100 a night is returned.
\<close>

theorem filterHotels_inverted_range_counterexample:
  "(0::rat) < 5
   \<and> filterHotels [sampleHotel ''h1'' ''Berlin'' 100 8]
        (noFilters\<lparr>minPrice := Some 5, maxPrice := Some 0\<rparr>)
     = [sampleHotel ''h1'' ''Berlin'' 100 8]"
  by (simp add: filterHotels_def hotelPasses_def noFilters_def sampleHotel_def)

text \<open>
  C7 (amended): for every hotel list and every filters object with both \<open>minPrice\<close> and
  \<open>maxPrice\<close> set, neither of them zero, and \<open>minPrice > maxPrice\<close>, \<open>filterHotels\<close>
  returns the empty list.
\<close>

theorem filterHotels_inverted_range:
  assumes "minPrice filters = Some lo" and "maxPrice filters = Some hi"
    and "lo \<noteq> 0" and "hi \<noteq> 0" and "hi < lo"
  shows "filterHotels hotelList filters = []"
  using assms by (auto simp: filterHotels_def hotelPasses_def filter_empty_conv)

theorem filterHotels_inverted_range_witness:
  "minPrice (noFilters\<lparr>minPrice := Some 200, maxPrice := Some 100\<rparr>) = Some 200
   \<and> maxPrice (noFilters\<lparr>minPrice := Some 200, maxPrice := Some 100\<rparr>) = Some 100
   \<and> (200::rat) \<noteq> 0 \<and> (100::rat) \<noteq> 0 \<and> (100::rat) < 200
   \<and> filterHotels [sampleHotel ''h1'' ''Berlin'' 100 8, sampleHotel ''h2'' ''Munich'' 300 9]
        (noFilters\<lparr>minPrice := Some 200, maxPrice := Some 100\<rparr>) = []"
  using filterHotels_inverted_range
    [of "noFilters\<lparr>minPrice := Some 200, maxPrice := Some 100\<rparr>" 200 100
        "[sampleHotel ''h1'' ''Berlin'' 100 8, sampleHotel ''h2'' ''Munich'' 300 9]"]
  by simp


section \<open>Properties of the location resolver\<close>

lemma getCityCode_default:
  "getCityCode None = Some (Code ''NYC'')"
  "trim loc = [] \<Longrightarrow> getCityCode (Some loc) = Some (Code ''NYC'')"
  by (simp_all add: getCityCode_def)

lemma getCityCode_short:
  "trim loc \<noteq> [] \<Longrightarrow> length (trim (toLowerCase loc)) < 3 \<Longrightarrow> getCityCode (Some loc) = None"
  by (auto simp: getCityCode_def trim_def)

lemma getCityCode_three_letters:
  "trim loc \<noteq> [] \<Longrightarrow> threeLetters (trim (toLowerCase loc)) \<Longrightarrow>
   getCityCode (Some loc) = Some (Code (toUpperCase (trim (toLowerCase loc))))"
  by (auto simp: getCityCode_def trim_def threeLetters_def)

lemma getCityCode_table:
  "trim loc \<noteq> [] \<Longrightarrow> 3 \<le> length (trim (toLowerCase loc)) \<Longrightarrow>
   \<not> threeLetters (trim (toLowerCase loc)) \<Longrightarrow>
   map_of CITY_CODES (trim (toLowerCase loc)) = Some code \<Longrightarrow>
   getCityCode (Some loc) = Some (Code code)"
  by (auto simp: getCityCode_def trim_def propertyRead_def)

lemma getCityCode_examples:
  "getCityCode (Some []) = Some (Code ''NYC'')"
  "getCityCode (Some ''xy'') = None"
  "getCityCode (Some ''par'') = Some (Code ''PAR'')"
  "getCityCode (Some ''zzzznotacity'') = None"
  "getCityCode (Some ''Paris'') = Some (Code ''PAR'')"
  "getCityCode (Some ''new york city'') = Some (Code ''NYC'')"
  by code_simp+

text \<open>
  C5: \<open>getCityCode\<close> applies its rules in order and returns \<open>null\<close> when nothing matches.
  The code breaks this at the input \<open>"constructor"\<close>: it is no city of the table and no
  table entry is a prefix of it or has it as a prefix, yet the property read
  \<open>CITY_CODES[normalized]\<close> finds the member that every object inherits, which is truthy
  and is returned in place of \<open>null\<close>.
\<close>

theorem getCityCode_constructor:
  "getCityCode (Some ''constructor'') = Some (Inherited ''constructor'')
   \<and> map_of CITY_CODES ''constructor'' = None
   \<and> find (\<lambda>(cityName, code). startsWith cityName ''constructor''
              \<or> startsWith ''constructor'' cityName) CITY_CODES = None"
  by code_simp


section \<open>Properties of the sort engine\<close>

lemma insert_by_insort_key:
  assumes "\<And>a b. (cmp a b \<le> 0) = (k a \<le> k b)"
  shows "insert_by cmp x ys = insort_key k x ys"
  by (induction ys) (simp_all add: assms)

lemma js_sort_sort_key:
  assumes "\<And>a b. (cmp a b \<le> 0) = (k a \<le> k b)"
  shows "js_sort cmp xs = sort_key k xs"
  by (induction xs) (simp_all add: js_sort_def sort_key_def insert_by_insort_key [OF assms])

lemma localeCompare_le: "(localeCompare collate a b \<le> 0) = (collate a \<le> collate b)"
  by (auto simp: localeCompare_def)

lemma sortHotels_price_asc:
  "sortHotels collate hs (Some ''price_asc'') = sort_key pricePerNight hs"
  by (simp add: sortHotels_def js_sort_sort_key [where k = pricePerNight])

lemma sortHotels_price_desc:
  "sortHotels collate hs (Some ''price_desc'') = sort_key (\<lambda>h. - pricePerNight h) hs"
  by (simp add: sortHotels_def js_sort_sort_key [where k = "\<lambda>h. - pricePerNight h"])

lemma sortHotels_rating_desc:
  "sortHotels collate hs (Some ''rating_desc'') = sort_key (\<lambda>h. - userRating h) hs"
  by (simp add: sortHotels_def js_sort_sort_key [where k = "\<lambda>h. - userRating h"])

lemma sortHotels_name_asc:
  "sortHotels collate hs (Some ''name_asc'') = sort_key (\<lambda>h. collate (name h)) hs"
  by (simp add: sortHotels_def js_sort_sort_key [where k = "\<lambda>h. collate (name h)"] localeCompare_le)

lemma sortHotels_unknown:
  "s \<notin> set [''price_asc'', ''price_desc'', ''rating_desc'', ''name_asc''] \<Longrightarrow> sortHotels collate hs (Some s) = hs"
  by (simp add: sortHotels_def)

lemma sortHotels_absent: "sortHotels collate hs None = sortHotels collate hs (Some ''price_asc'')"
  by (simp add: sortHotels_def)

lemma sorted_desc:
  fixes p :: "'a \<Rightarrow> rat"
  shows "sorted (map (\<lambda>h. - p h) ys) \<Longrightarrow> sorted (rev (map p ys))"
  by (simp add: sorted_map sorted_wrt_rev sorted_wrt_map)

lemma mset_insert_by: "mset (insert_by cmp x ys) = add_mset x (mset ys)"
  by (induction ys) simp_all

lemma mset_js_sort: "mset (js_sort cmp xs) = mset xs"
  by (induction xs) (simp_all add: js_sort_def mset_insert_by)

lemma mset_sortHotels: "mset (sortHotels collate hs sb) = mset hs"
  by (simp add: sortHotels_def mset_js_sort Let_def)

lemma sortHotels_example:
  assumes "map pricePerNight hs = [300, 100, 200]"
  shows "map pricePerNight (sortHotels collate hs (Some ''price_asc'')) = [100, 200, 300]
    \<and> map pricePerNight (sortHotels collate hs (Some ''price_desc'')) = [300, 200, 100]"
proof -
  from assms obtain a b c where hs: "hs = [a, b, c]"
    and p: "pricePerNight a = 300" "pricePerNight b = 100" "pricePerNight c = 200"
    by (auto simp: map_eq_Cons_conv)
  show ?thesis
    by (simp add: sortHotels_price_asc sortHotels_price_desc hs p)
qed


text \<open>
  C6, as the specification words it, fails for an absent \<open>sortBy\<close>: the default parameter
  \<open>sortBy = "price_asc"\<close> takes the place of \<open>undefined\<close>, so the list is sorted by
  ascending price and not returned in input order.
\<close>

theorem sortHotels_default_counterexample:
  "sortHotels byLength
     [sampleHotel ''a'' ''Berlin'' 300 8, sampleHotel ''b'' ''Berlin'' 100 8,
      sampleHotel ''c'' ''Berlin'' 200 8] None
   \<noteq> [sampleHotel ''a'' ''Berlin'' 300 8, sampleHotel ''b'' ''Berlin'' 100 8,
      sampleHotel ''c'' ''Berlin'' 200 8]"
  by (simp add: sortHotels_def js_sort_def sampleHotel_def)

text \<open>
  C6 (amended): \<open>sortHotels\<close> with \<open>"price_asc"\<close> orders the list ascending by
  \<open>pricePerNight\<close> and with \<open>"price_desc"\<close> descending (prices [300,100,200] become
  [100,200,300] and [300,200,100]); \<open>"rating_desc"\<close> orders by descending \<open>userRating\<close>
  and \<open>"name_asc"\<close> by ascending collation of the name; the result is a permutation of
  the input; for every sort key, the hotels that compare equal keep their original
  relative order (the sort is stable); a \<open>sortBy\<close> string that is none of the four keys
  returns the list in input order unchanged; an absent \<open>sortBy\<close> sorts as \<open>"price_asc"\<close>.
\<close>

theorem sortHotels_orders:
  "sorted (map pricePerNight (sortHotels collate hs (Some ''price_asc'')))
   \<and> sorted (rev (map pricePerNight (sortHotels collate hs (Some ''price_desc''))))
   \<and> sorted (rev (map userRating (sortHotels collate hs (Some ''rating_desc''))))
   \<and> sorted (map (\<lambda>h. collate (name h)) (sortHotels collate hs (Some ''name_asc'')))
   \<and> mset (sortHotels collate hs sortByArg) = mset hs
   \<and> filter (\<lambda>h. pricePerNight h = v) (sortHotels collate hs (Some ''price_asc''))
       = filter (\<lambda>h. pricePerNight h = v) hs
   \<and> filter (\<lambda>h. pricePerNight h = v) (sortHotels collate hs (Some ''price_desc''))
       = filter (\<lambda>h. pricePerNight h = v) hs
   \<and> filter (\<lambda>h. userRating h = v) (sortHotels collate hs (Some ''rating_desc''))
       = filter (\<lambda>h. userRating h = v) hs
   \<and> filter (\<lambda>h. collate (name h) = k) (sortHotels collate hs (Some ''name_asc''))
       = filter (\<lambda>h. collate (name h) = k) hs
   \<and> (s \<notin> set [''price_asc'', ''price_desc'', ''rating_desc'', ''name_asc'']
        \<longrightarrow> sortHotels collate hs (Some s) = hs)
   \<and> sortHotels collate hs None = sortHotels collate hs (Some ''price_asc'')
   \<and> (map pricePerNight hs = [300, 100, 200]
        \<longrightarrow> map pricePerNight (sortHotels collate hs (Some ''price_asc'')) = [100, 200, 300]
          \<and> map pricePerNight (sortHotels collate hs (Some ''price_desc'')) = [300, 200, 100])"
proof -
  have asc: "sorted (map pricePerNight (sortHotels collate hs (Some ''price_asc'')))"
    by (simp only: sortHotels_price_asc sorted_sort_key)
  have desc: "sorted (rev (map pricePerNight (sortHotels collate hs (Some ''price_desc''))))"
    by (simp only: sortHotels_price_desc sorted_desc sorted_sort_key)
  have rdesc: "sorted (rev (map userRating (sortHotels collate hs (Some ''rating_desc''))))"
    by (simp only: sortHotels_rating_desc sorted_desc sorted_sort_key)
  have nasc: "sorted (map (\<lambda>h. collate (name h)) (sortHotels collate hs (Some ''name_asc'')))"
    by (simp only: sortHotels_name_asc sorted_sort_key)
  have st1: "filter (\<lambda>h. pricePerNight h = v) (sortHotels collate hs (Some ''price_asc''))
       = filter (\<lambda>h. pricePerNight h = v) hs"
    by (simp only: sortHotels_price_asc sort_key_stable)
  have st2: "filter (\<lambda>h. pricePerNight h = v) (sortHotels collate hs (Some ''price_desc''))
       = filter (\<lambda>h. pricePerNight h = v) hs"
    using sort_key_stable [of "\<lambda>h. - pricePerNight h" "- v" hs]
    by (simp add: sortHotels_price_desc)
  have st3: "filter (\<lambda>h. userRating h = v) (sortHotels collate hs (Some ''rating_desc''))
       = filter (\<lambda>h. userRating h = v) hs"
    using sort_key_stable [of "\<lambda>h. - userRating h" "- v" hs]
    by (simp add: sortHotels_rating_desc)
  have st4: "filter (\<lambda>h. collate (name h) = k) (sortHotels collate hs (Some ''name_asc''))
       = filter (\<lambda>h. collate (name h) = k) hs"
    by (simp only: sortHotels_name_asc sort_key_stable)
  show ?thesis
    using asc desc rdesc nasc st1 st2 st3 st4 mset_sortHotels [of collate hs sortByArg]
      sortHotels_unknown [of s collate hs] sortHotels_absent [of collate hs]
      sortHotels_example [of hs collate]
    by blast
qed

theorem sortHotels_orders_witness:
  "map pricePerNight (sortHotels byLength
      [sampleHotel ''a'' ''Berlin'' 300 8, sampleHotel ''b'' ''Berlin'' 100 8,
       sampleHotel ''c'' ''Berlin'' 200 8] (Some ''price_asc'')) = [100, 200, 300]
   \<and> map pricePerNight (sortHotels byLength
      [sampleHotel ''a'' ''Berlin'' 300 8, sampleHotel ''b'' ''Berlin'' 100 8,
       sampleHotel ''c'' ''Berlin'' 200 8] (Some ''price_desc'')) = [300, 200, 100]
   \<and> ''popularity'' \<notin> set [''price_asc'', ''price_desc'', ''rating_desc'', ''name_asc'']
   \<and> sortHotels byLength
      [sampleHotel ''a'' ''Berlin'' 300 8, sampleHotel ''b'' ''Berlin'' 100 8,
       sampleHotel ''c'' ''Berlin'' 200 8] (Some ''popularity'')
     = [sampleHotel ''a'' ''Berlin'' 300 8, sampleHotel ''b'' ''Berlin'' 100 8,
       sampleHotel ''c'' ''Berlin'' 200 8]"
proof -
  have prices: "map pricePerNight
      [sampleHotel ''a'' ''Berlin'' 300 8, sampleHotel ''b'' ''Berlin'' 100 8,
       sampleHotel ''c'' ''Berlin'' 200 8] = [300, 100, 200]"
    by (simp add: sampleHotel_def)
  have unknown: "''popularity'' \<notin> set [''price_asc'', ''price_desc'', ''rating_desc'', ''name_asc'']"
    by simp
  show ?thesis
    using prices unknown
      sortHotels_orders [of byLength "[sampleHotel ''a'' ''Berlin'' 300 8,
        sampleHotel ''b'' ''Berlin'' 100 8, sampleHotel ''c'' ''Berlin'' 200 8]"
        None 0 0 "''popularity''"]
    by simp
qed


section \<open>Properties of the search orchestrator\<close>

lemma slice_page:
  assumes "0 \<le> a"
  shows "slice xs a (a + 12) = take 12 (drop (nat a) xs)"
proof (cases "a \<le> int (length xs)")
  case True
  then have "nat (min (a + 12) (int (length xs)) - a) = min 12 (length xs - nat a)"
    using assms by auto
  then show ?thesis
    using assms True by (simp add: slice_def Let_def min_def)
next
  case False
  then show ?thesis
    using assms by (simp add: slice_def Let_def)
qed

lemma mock_branch:
  "useMockData env \<Longrightarrow>
   searchHotels c mock env st f p
     = Inr (pageResult (sortHotels c (filterHotels mock f) (sortBy f)) p, st)"
  by (simp add: searchHotels_def searchHotelsTry_def)

lemma unresolved_branch:
  "\<not> useMockData env \<Longrightarrow> getCityCode (location f) = None \<Longrightarrow>
   searchHotels c mock env st f p
     = Inr (pageResult (sortHotels c (filterHotels mock f) (sortBy f)) p, st)"
  by (simp add: searchHotels_def searchHotelsTry_def)

lemma hit_branch:
  "\<not> useMockData env \<Longrightarrow> getCityCode (location f) = Some cc \<Longrightarrow>
   isCacheValid (searchCache st) (clockAtCheck env) f \<Longrightarrow>
   searchHotels c mock env st f p = Inr (pageResult (cache_hotels (searchCache st)) p, st)"
  by (simp add: searchHotels_def searchHotelsTry_def)

lemma miss_branch_fetched:
  "\<not> useMockData env \<Longrightarrow> getCityCode (location f) = Some cc \<Longrightarrow>
   \<not> isCacheValid (searchCache st) (clockAtCheck env) f \<Longrightarrow>
   remote env cc (checkIn f) (checkOut f) = Fetched raw \<Longrightarrow>
   searchHotels c mock env st f p
     = Inr (pageResult (sortHotels c (filterHotels raw (f\<lparr>location := None\<rparr>)) (sortBy f)) p,
            st\<lparr> remoteCalls := remoteCalls st + 1,
                searchCache := \<lparr> cache_key = Some (getCacheKey f),
                   cache_hotels = sortHotels c (filterHotels raw (f\<lparr>location := None\<rparr>)) (sortBy f),
                   cache_timestamp = clockAtWrite env, cache_ttl = 5 * 60 * 1000 \<rparr> \<rparr>)"
  by (simp add: searchHotels_def searchHotelsTry_def Let_def)

lemma miss_branch_counts:
  "\<not> useMockData env \<Longrightarrow> getCityCode (location f) = Some cc \<Longrightarrow>
   \<not> isCacheValid (searchCache st) (clockAtCheck env) f \<Longrightarrow>
   \<exists>r st'. searchHotels c mock env st f p = Inr (r, st') \<and> remoteCalls st' = remoteCalls st + 1"
  by (cases "remote env cc (checkIn f) (checkOut f)")
     (simp_all add: searchHotels_def searchHotelsTry_def Let_def)


lemma getCacheKey_resolves:
  assumes "getCacheKey f' = getCacheKey f"
  shows "getCityCode (location f') = getCityCode (location f)"
proof -
  from assms have "orElse (location f') [] = orElse (location f) []"
    by (simp add: getCacheKey_def)
  then show ?thesis
    by (auto simp: orElse_def getCityCode_def trim_def split: option.splits if_splits)
qed

lemma isCacheValid_key:
  "getCacheKey f' = getCacheKey f \<Longrightarrow> isCacheValid cache now f' = isCacheValid cache now f"
  by (simp add: isCacheValid_def)

lemma sortHotels_Nil_iff: "(sortHotels c hs sb = []) = (hs = [])"
  using mset_sortHotels [of c hs sb] by (metis mset_zero_iff)

text \<open>
  C1, as the specification words it, fails: when the remote fetch of the first call leaves
  no hotel, the entry it writes is never valid, and the second call, with the same filters,
  no \<open>clearSearchCache\<close> in between and one second later, goes to the network again.
\<close>

theorem searchHotels_refetch_counterexample:
  "searchHotels byLength sampleCatalog (liveEnv 1000 emptyRemote) initialState noFilters 1
     = Inr (\<lparr> hotels = [], total_count = 0, page = 1, hasMore = False \<rparr>,
            \<lparr> searchCache = \<lparr> cache_key = Some (getCacheKey noFilters), cache_hotels = [],
                  cache_timestamp = 1001, cache_ttl = 300000 \<rparr>,
              remoteCalls = 1 \<rparr>)
   \<and> (2000::int) - 1001 < 5 * 60 * 1000
   \<and> searchHotels byLength sampleCatalog (liveEnv 2000 emptyRemote)
        \<lparr> searchCache = \<lparr> cache_key = Some (getCacheKey noFilters), cache_hotels = [],
              cache_timestamp = 1001, cache_ttl = 300000 \<rparr>,
          remoteCalls = 1 \<rparr> noFilters 1
     = Inr (\<lparr> hotels = [], total_count = 0, page = 1, hasMore = False \<rparr>,
            \<lparr> searchCache = \<lparr> cache_key = Some (getCacheKey noFilters), cache_hotels = [],
                  cache_timestamp = 2001, cache_ttl = 300000 \<rparr>,
              remoteCalls = 2 \<rparr>)"
  by code_simp

text \<open>
  C1 (amended): in live mode, when the first of two consecutive search calls is a cache
  miss whose remote fetch succeeds and leaves a non-empty filtered result set, and the
  second call, with identical normalized filters and no intervening \<open>clearSearchCache\<close>
  or filter mutation, reads the clock less than 5 minutes after the first call's cache
  write, then the second call does not trigger a remote fetch: it returns the requested
  page of the cached result set directly, without filtering or sorting, and leaves the
  state as it is.
\<close>

theorem searchHotels_cache_hit_after_fetch:
  assumes live1: "\<not> useMockData env1" and live2: "\<not> useMockData env2"
    and res: "getCityCode (location f) = Some cc"
    and miss: "\<not> isCacheValid (searchCache st) (clockAtCheck env1) f"
    and fetched: "remote env1 cc (checkIn f) (checkOut f) = Fetched raw"
    and nonempty: "filterHotels raw (f\<lparr>location := None\<rparr>) \<noteq> []"
    and same: "getCacheKey f' = getCacheKey f"
    and fresh: "clockAtCheck env2 - clockAtWrite env1 < 5 * 60 * 1000"
  shows "\<exists>r1 st1. searchHotels c mock env1 st f p1 = Inr (r1, st1)
           \<and> remoteCalls st1 = remoteCalls st + 1
           \<and> cache_hotels (searchCache st1)
               = sortHotels c (filterHotels raw (f\<lparr>location := None\<rparr>)) (sortBy f)
           \<and> searchHotels c mock env2 st1 f' p2
               = Inr (pageResult (cache_hotels (searchCache st1)) p2, st1)"
proof -
  let ?L = "sortHotels c (filterHotels raw (f\<lparr>location := None\<rparr>)) (sortBy f)"
  let ?st1 = "st\<lparr> remoteCalls := remoteCalls st + 1,
                searchCache := \<lparr> cache_key = Some (getCacheKey f), cache_hotels = ?L,
                   cache_timestamp = clockAtWrite env1, cache_ttl = 5 * 60 * 1000 \<rparr> \<rparr>"
  have first: "searchHotels c mock env1 st f p1 = Inr (pageResult ?L p1, ?st1)"
    using miss_branch_fetched [OF live1 res miss fetched] .
  have "?L \<noteq> []"
    using nonempty by (simp add: sortHotels_Nil_iff)
  then have valid: "isCacheValid (searchCache ?st1) (clockAtCheck env2) f'"
    using same fresh by (simp add: isCacheValid_def)
  have res': "getCityCode (location f') = Some cc"
    using getCacheKey_resolves [OF same] res by simp
  have second: "searchHotels c mock env2 ?st1 f' p2
      = Inr (pageResult (cache_hotels (searchCache ?st1)) p2, ?st1)"
    using hit_branch [OF live2 res' valid] .
  show ?thesis
    using first second by simp
qed

theorem searchHotels_cache_hit_after_fetch_witness:
  "\<not> useMockData (liveEnv 1000 sampleRemote) \<and> \<not> useMockData (liveEnv 2000 failingRemote)
   \<and> getCityCode (location noFilters) = Some (Code ''NYC'')
   \<and> \<not> isCacheValid (searchCache initialState) (clockAtCheck (liveEnv 1000 sampleRemote))
         noFilters
   \<and> remote (liveEnv 1000 sampleRemote) (Code ''NYC'') (checkIn noFilters) (checkOut noFilters)
       = Fetched [sampleHotel ''r1'' ''NYC'' 120 8, sampleHotel ''r2'' ''NYC'' 90 9]
   \<and> filterHotels [sampleHotel ''r1'' ''NYC'' 120 8, sampleHotel ''r2'' ''NYC'' 90 9]
        (noFilters\<lparr>location := None\<rparr>) \<noteq> []
   \<and> getCacheKey (noFilters\<lparr>guests := Some 3\<rparr>) = getCacheKey noFilters
   \<and> clockAtCheck (liveEnv 2000 failingRemote) - clockAtWrite (liveEnv 1000 sampleRemote)
        < 5 * 60 * 1000
   \<and> (\<exists>r1 st1.
         searchHotels byLength sampleCatalog (liveEnv 1000 sampleRemote) initialState noFilters 1
           = Inr (r1, st1)
         \<and> remoteCalls st1 = 1
         \<and> searchHotels byLength sampleCatalog (liveEnv 2000 failingRemote) st1
              (noFilters\<lparr>guests := Some 3\<rparr>) 1
            = Inr (pageResult (cache_hotels (searchCache st1)) 1, st1))"
proof -
  have h1: "\<not> useMockData (liveEnv 1000 sampleRemote)"
    by (simp add: liveEnv_def)
  have h2: "\<not> useMockData (liveEnv 2000 failingRemote)"
    by (simp add: liveEnv_def)
  have h3: "getCityCode (location noFilters) = Some (Code ''NYC'')"
    by (simp add: noFilters_def getCityCode_def)
  have h4: "\<not> isCacheValid (searchCache initialState)
      (clockAtCheck (liveEnv 1000 sampleRemote)) noFilters"
    by (simp add: isCacheValid_def initialState_def emptyCache_def)
  have h5: "remote (liveEnv 1000 sampleRemote) (Code ''NYC'') (checkIn noFilters)
      (checkOut noFilters)
      = Fetched [sampleHotel ''r1'' ''NYC'' 120 8, sampleHotel ''r2'' ''NYC'' 90 9]"
    by (simp add: liveEnv_def sampleRemote_def)
  have h6: "filterHotels [sampleHotel ''r1'' ''NYC'' 120 8, sampleHotel ''r2'' ''NYC'' 90 9]
      (noFilters\<lparr>location := None\<rparr>) \<noteq> []"
    by (simp add: filterHotels_def hotelPasses_def noFilters_def)
  have h7: "getCacheKey (noFilters\<lparr>guests := Some 3\<rparr>) = getCacheKey noFilters"
    by (simp add: getCacheKey_def)
  have h8: "clockAtCheck (liveEnv 2000 failingRemote)
      - clockAtWrite (liveEnv 1000 sampleRemote) < 5 * 60 * 1000"
    by (simp add: liveEnv_def)
  have init: "remoteCalls initialState = 0"
    by (simp add: initialState_def)
  show ?thesis
    using h1 h2 h3 h4 h5 h6 h7 h8 init
      searchHotels_cache_hit_after_fetch [OF h1 h2 h3 h4 h5 h6 h7 h8,
        of byLength sampleCatalog 1 1]
    by auto
qed

text \<open>
  C9: the cache-validity predicate holds only when the cached hotels list is non-empty: a
  live-mode search whose remote fetch produced zero hotels writes a cache entry that is
  never treated as a cache hit, so the next search with the same normalized filters
  performs a fresh remote fetch, whatever the clock reads and with an unchanged key.
\<close>

theorem empty_fetch_never_hits:
  assumes live1: "\<not> useMockData env1" and live2: "\<not> useMockData env2"
    and res: "getCityCode (location f) = Some cc"
    and miss: "\<not> isCacheValid (searchCache st) (clockAtCheck env1) f"
    and fetched: "remote env1 cc (checkIn f) (checkOut f) = Fetched raw"
    and empty: "filterHotels raw (f\<lparr>location := None\<rparr>) = []"
    and same: "getCacheKey f' = getCacheKey f"
  shows "(isCacheValid cache now g \<longrightarrow> cache_hotels cache \<noteq> [])
     \<and> (\<exists>r1 st1. searchHotels c mock env1 st f p1 = Inr (r1, st1)
          \<and> cache_key (searchCache st1) = Some (getCacheKey f')
          \<and> cache_hotels (searchCache st1) = []
          \<and> \<not> isCacheValid (searchCache st1) (clockAtCheck env2) f'
          \<and> (\<exists>r2 st2. searchHotels c mock env2 st1 f' p2 = Inr (r2, st2)
                \<and> remoteCalls st2 = remoteCalls st1 + 1))"
proof -
  let ?L = "sortHotels c (filterHotels raw (f\<lparr>location := None\<rparr>)) (sortBy f)"
  let ?st1 = "st\<lparr> remoteCalls := remoteCalls st + 1,
                searchCache := \<lparr> cache_key = Some (getCacheKey f), cache_hotels = ?L,
                   cache_timestamp = clockAtWrite env1, cache_ttl = 5 * 60 * 1000 \<rparr> \<rparr>"
  have only_nonempty: "isCacheValid cache now g \<longrightarrow> cache_hotels cache \<noteq> []"
    by (auto simp: isCacheValid_def)
  have first: "searchHotels c mock env1 st f p1 = Inr (pageResult ?L p1, ?st1)"
    using miss_branch_fetched [OF live1 res miss fetched] .
  have L: "?L = []"
    using empty by (simp add: sortHotels_Nil_iff)
  have key: "cache_key (searchCache ?st1) = Some (getCacheKey f')"
    using same by simp
  have hotels: "cache_hotels (searchCache ?st1) = []"
    using L by simp
  have invalid: "\<not> isCacheValid (searchCache ?st1) (clockAtCheck env2) f'"
    using L by (simp add: isCacheValid_def)
  have res': "getCityCode (location f') = Some cc"
    using getCacheKey_resolves [OF same] res by simp
  have second: "\<exists>r2 st2. searchHotels c mock env2 ?st1 f' p2 = Inr (r2, st2)
      \<and> remoteCalls st2 = remoteCalls ?st1 + 1"
    using miss_branch_counts [OF live2 res' invalid] .
  show ?thesis
    using only_nonempty first key hotels invalid second by blast
qed


theorem empty_fetch_never_hits_witness:
  "\<not> useMockData (liveEnv 1000 emptyRemote) \<and> \<not> useMockData (liveEnv 2000 emptyRemote)
   \<and> getCityCode (location noFilters) = Some (Code ''NYC'')
   \<and> \<not> isCacheValid (searchCache initialState) (clockAtCheck (liveEnv 1000 emptyRemote))
         noFilters
   \<and> remote (liveEnv 1000 emptyRemote) (Code ''NYC'') (checkIn noFilters) (checkOut noFilters)
       = Fetched []
   \<and> filterHotels [] (noFilters\<lparr>location := None\<rparr>) = []
   \<and> (\<exists>r1 st1.
         searchHotels byLength sampleCatalog (liveEnv 1000 emptyRemote) initialState noFilters 1
           = Inr (r1, st1)
         \<and> cache_key (searchCache st1) = Some (getCacheKey noFilters)
         \<and> cache_hotels (searchCache st1) = []
         \<and> (\<exists>r2 st2.
              searchHotels byLength sampleCatalog (liveEnv 2000 emptyRemote) st1 noFilters 1
                = Inr (r2, st2)
              \<and> remoteCalls st2 = remoteCalls st1 + 1))"
proof -
  have h1: "\<not> useMockData (liveEnv 1000 emptyRemote)"
    by (simp add: liveEnv_def)
  have h2: "\<not> useMockData (liveEnv 2000 emptyRemote)"
    by (simp add: liveEnv_def)
  have h3: "getCityCode (location noFilters) = Some (Code ''NYC'')"
    by (simp add: noFilters_def getCityCode_def)
  have h4: "\<not> isCacheValid (searchCache initialState)
      (clockAtCheck (liveEnv 1000 emptyRemote)) noFilters"
    by (simp add: isCacheValid_def initialState_def emptyCache_def)
  have h5: "remote (liveEnv 1000 emptyRemote) (Code ''NYC'') (checkIn noFilters)
      (checkOut noFilters) = Fetched []"
    by (simp add: liveEnv_def emptyRemote_def)
  have h6: "filterHotels [] (noFilters\<lparr>location := None\<rparr>) = []"
    by (simp add: filterHotels_def)
  have h7: "getCacheKey noFilters = getCacheKey noFilters"
    by simp
  show ?thesis
    using h1 h2 h3 h4 h5 h6
      empty_fetch_never_hits [OF h1 h2 h3 h4 h5 h6 h7,
        where c = byLength and mock = sampleCatalog and ?p1.0 = 1 and ?p2.0 = 1]
    by blast
qed


lemma slice_first_page: "slice xs 0 12 = take 12 xs"
  using slice_page [of 0 xs] by simp

lemma fallbackResult_fields:
  "hotels (fallbackResult R) = take 12 R \<and> total_count (fallbackResult R) = length R
   \<and> page (fallbackResult R) = 1 \<and> hasMore (fallbackResult R) = (12 < length R)"
  by (auto simp: fallbackResult_def HOTELS_PER_PAGE_def slice_first_page)

lemma catch_branch:
  "searchHotelsTry c mockHotels env st f p = Inl (e, st1) \<Longrightarrow>
   searchHotels c mockHotels env st f p
     = Inr (fallbackResult (sortHotels c (filterHotels mockHotels f) (sortBy f)), st1)"
  by (simp add: searchHotels_def)

lemma promise_resolves:
  "\<exists>r st'. searchHotels c mockHotels env st f p = Inr (r, st')"
  by (cases "searchHotelsTry c mockHotels env st f p")
     (auto simp: searchHotels_def)

lemma try_throws:
  "\<not> useMockData env \<Longrightarrow> getCityCode (location f) = Some cc \<Longrightarrow>
   \<not> isCacheValid (searchCache st) (clockAtCheck env) f \<Longrightarrow>
   remote env cc (checkIn f) (checkOut f) \<in> {AuthFailed, RequestFailed} \<Longrightarrow>
   \<exists>e. searchHotelsTry c mockHotels env st f p = Inl (e, st\<lparr>remoteCalls := remoteCalls st + 1\<rparr>)"
  by (auto simp: searchHotelsTry_def Let_def)

text \<open>
  C2: for every filters object and page, \<open>searchHotels\<close> never throws: its promise
  always resolves with a search result; when an error is thrown in the live branch (the
  authentication fails, the catalog request fails), it is caught at the boundary of
  \<open>searchHotels\<close> and the call returns the first page of the filtered and sorted mock
  catalog, with the total of that set and the result's page set to 1 whatever page was
  requested.
\<close>

theorem searchHotels_never_throws:
  "(\<exists>r st'. searchHotels c mockHotels env st f p = Inr (r, st')
      \<and> (\<forall>e st1. searchHotelsTry c mockHotels env st f p = Inl (e, st1) \<longrightarrow>
            st' = st1
            \<and> r = fallbackResult (sortHotels c (filterHotels mockHotels f) (sortBy f))
            \<and> hotels r = take 12 (sortHotels c (filterHotels mockHotels f) (sortBy f))
            \<and> total_count r = length (sortHotels c (filterHotels mockHotels f) (sortBy f))
            \<and> page r = 1
            \<and> hasMore r
                = (12 < length (sortHotels c (filterHotels mockHotels f) (sortBy f)))))
   \<and> (\<not> useMockData env \<and> getCityCode (location f) = Some cc
       \<and> \<not> isCacheValid (searchCache st) (clockAtCheck env) f
       \<and> remote env cc (checkIn f) (checkOut f) \<in> {AuthFailed, RequestFailed}
       \<longrightarrow> (\<exists>e st1. searchHotelsTry c mockHotels env st f p = Inl (e, st1)))"
proof -
  let ?R = "sortHotels c (filterHotels mockHotels f) (sortBy f)"
  obtain r st' where res: "searchHotels c mockHotels env st f p = Inr (r, st')"
    using promise_resolves by blast
  have "st' = st1 \<and> r = fallbackResult ?R \<and> hotels r = take 12 ?R
      \<and> total_count r = length ?R \<and> page r = 1 \<and> hasMore r = (12 < length ?R)"
    if "searchHotelsTry c mockHotels env st f p = Inl (e, st1)" for e st1
  proof -
    from catch_branch [OF that] res
    have "r = fallbackResult ?R" and "st' = st1" by simp_all
    then show ?thesis using fallbackResult_fields [of ?R] by simp
  qed
  with res have first: "\<exists>r st'. searchHotels c mockHotels env st f p = Inr (r, st')
      \<and> (\<forall>e st1. searchHotelsTry c mockHotels env st f p = Inl (e, st1) \<longrightarrow>
            st' = st1 \<and> r = fallbackResult ?R \<and> hotels r = take 12 ?R
            \<and> total_count r = length ?R \<and> page r = 1 \<and> hasMore r = (12 < length ?R))"
    by blast
  have second: "\<not> useMockData env \<and> getCityCode (location f) = Some cc
       \<and> \<not> isCacheValid (searchCache st) (clockAtCheck env) f
       \<and> remote env cc (checkIn f) (checkOut f) \<in> {AuthFailed, RequestFailed}
       \<longrightarrow> (\<exists>e st1. searchHotelsTry c mockHotels env st f p = Inl (e, st1))"
    using try_throws [of env f cc st c mockHotels p] by blast
  show ?thesis using first second by (rule conjI)
qed

theorem searchHotels_never_throws_witness:
  "searchHotelsTry byLength sampleCatalog (liveEnv 1000 failingRemote) initialState noFilters 3
     = Inl (AuthError, initialState\<lparr>remoteCalls := 1\<rparr>)
   \<and> (\<exists>r. searchHotels byLength sampleCatalog (liveEnv 1000 failingRemote) initialState
              noFilters 3 = Inr (r, initialState\<lparr>remoteCalls := 1\<rparr>)
          \<and> page r = 1 \<and> total_count r = 14
          \<and> map pricePerNight (hotels r) = [10, 20, 30, 40, 50, 60, 70, 80, 90, 100, 110, 120]
          \<and> hasMore r)"
proof -
  have thrown: "searchHotelsTry byLength sampleCatalog (liveEnv 1000 failingRemote)
      initialState noFilters 3 = Inl (AuthError, initialState\<lparr>remoteCalls := 1\<rparr>)"
    by code_simp
  have len: "length (sortHotels byLength (filterHotels sampleCatalog noFilters)
      (sortBy noFilters)) = 14"
    by code_simp
  have firstPage: "map pricePerNight (take 12 (sortHotels byLength
      (filterHotels sampleCatalog noFilters) (sortBy noFilters)))
      = [10, 20, 30, 40, 50, 60, 70, 80, 90, 100, 110, 120]"
    by code_simp
  show ?thesis
    using thrown len firstPage
      searchHotels_never_throws [of byLength sampleCatalog "liveEnv 1000 failingRemote"
        initialState noFilters 3 "Code ''NYC''"]
    by auto
qed

text \<open>
  C4: for every hotel list and page \<open>\<ge> 1\<close>, the mock-mode search paginates with
  \<open>start = (page - 1) * 12\<close> and \<open>end = start + 12\<close>: the returned hotels are the slice
  from \<open>start\<close> up to \<open>end\<close> of the filtered and sorted set, the total is the length of
  the full set, the page echoes the request, \<open>hasMore\<close> is true iff \<open>end < total\<close>
  (equivalently iff \<open>page * 12 < total\<close>), and an out-of-range page yields an empty hotels
  array, not an error.
\<close>

theorem searchHotels_mock_pagination:
  assumes mock: "useMockData env" and pos: "1 \<le> p"
  shows "\<exists>r. searchHotels c mockHotels env st f p = Inr (r, st)
     \<and> hotels r = take 12 (drop (nat ((p - 1) * 12))
                     (sortHotels c (filterHotels mockHotels f) (sortBy f)))
     \<and> total_count r = length (sortHotels c (filterHotels mockHotels f) (sortBy f))
     \<and> page r = p
     \<and> hasMore r
         = ((p - 1) * 12 + 12 < int (length (sortHotels c (filterHotels mockHotels f) (sortBy f))))
     \<and> hasMore r
         = (p * 12 < int (length (sortHotels c (filterHotels mockHotels f) (sortBy f))))
     \<and> (int (length (sortHotels c (filterHotels mockHotels f) (sortBy f))) \<le> (p - 1) * 12
          \<longrightarrow> hotels r = [])"
proof -
  let ?R = "sortHotels c (filterHotels mockHotels f) (sortBy f)"
  have start: "0 \<le> (p - 1) * 12"
    using pos by simp
  have res: "searchHotels c mockHotels env st f p = Inr (pageResult ?R p, st)"
    using mock_branch [OF mock] .
  have h: "hotels (pageResult ?R p) = take 12 (drop (nat ((p - 1) * 12)) ?R)"
    using slice_page [OF start, of ?R]
    by (simp add: pageResult_def HOTELS_PER_PAGE_def Let_def)
  have t: "total_count (pageResult ?R p) = length ?R" and pg: "page (pageResult ?R p) = p"
    by (simp_all add: pageResult_def Let_def)
  have m1: "hasMore (pageResult ?R p) = ((p - 1) * 12 + 12 < int (length ?R))"
    by (simp add: pageResult_def HOTELS_PER_PAGE_def Let_def)
  have m2: "hasMore (pageResult ?R p) = (p * 12 < int (length ?R))"
    unfolding m1 by (simp add: algebra_simps)
  have out: "int (length ?R) \<le> (p - 1) * 12 \<longrightarrow> hotels (pageResult ?R p) = []"
    unfolding h using start by auto
  show ?thesis
    using res h t pg m1 m2 out by blast
qed

theorem searchHotels_mock_pagination_witness:
  "useMockData mockEnv \<and> (1::int) \<le> 2
   \<and> (\<exists>r. searchHotels byLength sampleCatalog mockEnv initialState noFilters 2
              = Inr (r, initialState)
          \<and> map pricePerNight (hotels r) = [130, 140]
          \<and> total_count r = 14 \<and> page r = 2 \<and> \<not> hasMore r)"
proof -
  have h1: "useMockData mockEnv"
    by (simp add: mockEnv_def)
  have h2: "(1::int) \<le> 2"
    by simp
  have len: "length (sortHotels byLength (filterHotels sampleCatalog noFilters)
      (sortBy noFilters)) = 14"
    by code_simp
  have secondPage: "map pricePerNight (take 12 (drop (nat ((2 - 1) * 12)) (sortHotels byLength
      (filterHotels sampleCatalog noFilters) (sortBy noFilters)))) = [130, 140]"
    by code_simp
  show ?thesis
    using h1 len secondPage
      searchHotels_mock_pagination [OF h1 h2, of byLength sampleCatalog initialState noFilters]
    by auto
qed


text \<open>
  C8, as the specification words it, fails in its last part: the branch for an unresolved
  location paginates the fallback set at the requested page and echoes that page.  With
  the location \<open>"in"\<close> (too short to resolve) and page 2 of the fourteen hotels, the
  result holds the last two hotels and its page is 2, not 1.
\<close>

theorem searchHotels_unresolved_counterexample:
  "getCityCode (location (noFilters\<lparr>location := Some ''in''\<rparr>)) = None
   \<and> searchHotels byLength sampleCatalog (liveEnv 1000 failingRemote) initialState
        (noFilters\<lparr>location := Some ''in''\<rparr>) 2
     = Inr (\<lparr> hotels = [sampleHotel (replicate 13 CHR ''h'') ''Berlin'' 130 8,
                         sampleHotel (replicate 14 CHR ''h'') ''Berlin'' 140 8],
              total_count = 14, page = 2, hasMore = False \<rparr>,
            initialState)"
  by code_simp

text \<open>
  C8 (amended): in live mode, whenever the location resolver returns \<open>null\<close> for
  \<open>filters.location\<close>, the search issues no remote request and falls back to filtering,
  sorting and paginating the static mock catalog at the requested page; the returned
  result's page echoes the requested page.
\<close>

theorem searchHotels_unresolved_location:
  assumes live: "\<not> useMockData env" and unresolved: "getCityCode (location f) = None"
  shows "\<exists>r. searchHotels c mockHotels env st f p = Inr (r, st)
     \<and> r = pageResult (sortHotels c (filterHotels mockHotels f) (sortBy f)) p
     \<and> hotels r = slice (sortHotels c (filterHotels mockHotels f) (sortBy f))
                     ((p - 1) * 12) ((p - 1) * 12 + 12)
     \<and> total_count r = length (sortHotels c (filterHotels mockHotels f) (sortBy f))
     \<and> page r = p
     \<and> hasMore r
         = ((p - 1) * 12 + 12 < int (length (sortHotels c (filterHotels mockHotels f) (sortBy f))))"
  using unresolved_branch [OF live unresolved, of c mockHotels st p]
  by (simp add: pageResult_def HOTELS_PER_PAGE_def Let_def)

theorem searchHotels_unresolved_location_witness:
  "\<not> useMockData (liveEnv 1000 failingRemote)
   \<and> getCityCode (location (noFilters\<lparr>location := Some ''in''\<rparr>)) = None
   \<and> (\<exists>r. searchHotels byLength sampleCatalog (liveEnv 1000 failingRemote) initialState
              (noFilters\<lparr>location := Some ''in''\<rparr>) 2 = Inr (r, initialState)
          \<and> page r = 2 \<and> total_count r = 14)"
proof -
  have h1: "\<not> useMockData (liveEnv 1000 failingRemote)"
    by (simp add: liveEnv_def)
  have h2: "getCityCode (location (noFilters\<lparr>location := Some ''in''\<rparr>)) = None"
    by code_simp
  have len: "length (sortHotels byLength
      (filterHotels sampleCatalog (noFilters\<lparr>location := Some ''in''\<rparr>))
      (sortBy (noFilters\<lparr>location := Some ''in''\<rparr>))) = 14"
    by code_simp
  show ?thesis
    using h1 h2 len
      searchHotels_unresolved_location [OF h1 h2, of byLength sampleCatalog initialState 2]
    by auto
qed

text \<open>Nothing reads \<open>filters.guests\<close>.\<close>

lemma hotelPasses_guests: "hotelPasses (f\<lparr>guests := g\<rparr>) = hotelPasses f"
  by (rule ext) (simp add: hotelPasses_def)

lemma filterHotels_guests: "filterHotels hs (f\<lparr>guests := g\<rparr>) = filterHotels hs f"
  by (simp add: filterHotels_def hotelPasses_guests)

lemma getCacheKey_guests: "getCacheKey (f\<lparr>guests := g\<rparr>) = getCacheKey f"
  by (simp add: getCacheKey_def)

lemma isCacheValid_guests:
  "isCacheValid cache now (f\<lparr>guests := g\<rparr>) = isCacheValid cache now f"
  by (simp add: isCacheValid_def getCacheKey_guests)

lemma try_ignores_guests:
  "searchHotelsTry c mockHotels env st (f\<lparr>guests := g\<rparr>) p
     = searchHotelsTry c mockHotels env st f p"
proof -
  have sel: "location (f\<lparr>guests := g\<rparr>) = location f"
    "checkIn (f\<lparr>guests := g\<rparr>) = checkIn f"
    "checkOut (f\<lparr>guests := g\<rparr>) = checkOut f"
    "sortBy (f\<lparr>guests := g\<rparr>) = sortBy f"
    by simp_all
  have swap: "(f\<lparr>guests := g\<rparr>)\<lparr>location := None\<rparr> = (f\<lparr>location := None\<rparr>)\<lparr>guests := g\<rparr>"
    by simp
  show ?thesis
    unfolding searchHotelsTry_def sel swap isCacheValid_guests filterHotels_guests
      getCacheKey_guests ..
qed

text \<open>
  C10: for any two filters objects that differ only in the \<open>guests\<close> field,
  \<open>searchHotels\<close> produces identical results (and leaves identical state) for every
  page, catalog, environment and prior state: \<open>guests\<close> is read neither by the filter
  predicates, nor by the sort, the pagination, the cache key or the remote requests.
\<close>

theorem searchHotels_ignores_guests:
  "searchHotels c mockHotels env st (f\<lparr>guests := g\<rparr>) p = searchHotels c mockHotels env st f p
   \<and> filterHotels hs (f\<lparr>guests := g\<rparr>) = filterHotels hs f
   \<and> getCacheKey (f\<lparr>guests := g\<rparr>) = getCacheKey f
   \<and> isCacheValid cache now (f\<lparr>guests := g\<rparr>) = isCacheValid cache now f"
proof -
  have "searchHotels c mockHotels env st (f\<lparr>guests := g\<rparr>) p
      = searchHotels c mockHotels env st f p"
    by (simp add: searchHotels_def try_ignores_guests filterHotels_guests
        split: sum.splits)
  then show ?thesis
    by (simp add: filterHotels_guests getCacheKey_guests isCacheValid_guests)
qed

theorem searchHotels_ignores_guests_witness:
  "searchHotels byLength sampleCatalog (liveEnv 1000 sampleRemote) initialState
     (noFilters\<lparr>guests := Some 5\<rparr>) 1
   = searchHotels byLength sampleCatalog (liveEnv 1000 sampleRemote) initialState
     (noFilters\<lparr>guests := Some 2\<rparr>) 1"
  using searchHotels_ignores_guests [where c = byLength and mockHotels = sampleCatalog
      and env = "liveEnv 1000 sampleRemote" and st = initialState and f = noFilters
      and g = "Some 5" and p = 1]
    searchHotels_ignores_guests [where c = byLength and mockHotels = sampleCatalog
      and env = "liveEnv 1000 sampleRemote" and st = initialState and f = noFilters
      and g = "Some 2" and p = 1]
  by simp

end
